theory Spec2Isabelle
  imports Main
begin

section \<open>Python string primitives used by the resolver\<close>

text \<open>
  Python strings are modelled as \<open>string\<close>. The three primitives below are the ones
  \<^verbatim>\<open>resolver.py\<close> calls: \<^verbatim>\<open>str.startswith\<close>, \<^verbatim>\<open>str.split\<close> with a one-character
  separator, and \<^verbatim>\<open>str.replace(" ", "")\<close>.
\<close>

definition startswith :: "string \<Rightarrow> string \<Rightarrow> bool" where
  "startswith s p = (take (length p) s = p)"

text \<open>
  \<^verbatim>\<open>s.split(sep)\<close>: the pieces between the separators; the empty string gives one empty
  piece, and a trailing separator gives a last empty piece.
\<close>

fun split :: "char \<Rightarrow> string \<Rightarrow> string list" where
  "split sep [] = [[]]"
| "split sep (c # cs) =
     (if c = sep then [] # split sep cs
      else (case split sep cs of
              [] \<Rightarrow> [[c]]
            | w # ws \<Rightarrow> (c # w) # ws))"

definition remove_spaces :: "string \<Rightarrow> string" where
  "remove_spaces s = filter (\<lambda>c. c \<noteq> CHR '' '') s"

text \<open>\<^verbatim>\<open>"\n".join(lines)\<close>, used to write apt output down line by line.\<close>

fun join_lines :: "string list \<Rightarrow> string" where
  "join_lines [] = []"
| "join_lines [l] = l"
| "join_lines (l # m # ls) = l @ CHR 0x0A # join_lines (m # ls)"

section \<open>The two regular expressions\<close>

text \<open>
  \<^verbatim>\<open>_ubuntu_version = re.compile("([0-9]+:)*(?P<version>[^-]*)(-.*)*")\<close>, used with
  \<^verbatim>\<open>match\<close> (anchored at the start only). Every part of the pattern may match the empty
  string, so the match itself never fails and the engine never backtracks into
  an earlier part: the first group greedily consumes every leading
  ``digits, colon'' block, and the named group is the longest hyphen-free run
  that follows.
\<close>

definition is_digit :: "char \<Rightarrow> bool" where
  "is_digit c = (c \<in> set ''0123456789'')"

function strip_epochs :: "string \<Rightarrow> string" where
  "strip_epochs s =
     (case dropWhile is_digit s of
        [] \<Rightarrow> s
      | c # rest \<Rightarrow>
          if takeWhile is_digit s \<noteq> [] \<and> c = CHR '':'' then strip_epochs rest else s)"
  by pat_completeness auto
termination
proof (relation "measure length")
  show "wf (measure length)" by simp
next
  fix s :: string and c rest
  assume "dropWhile is_digit s = c # rest"
  then have "length (c # rest) \<le> length s"
    by (metis length_dropWhile_le)
  then show "(rest, s) \<in> measure length" by simp
qed

declare strip_epochs.simps [simp del]

text \<open>The value of \<^verbatim>\<open>matched.group("version")\<close>; \<open>None\<close> stands for a failed match.\<close>

definition ubuntu_version_match :: "string \<Rightarrow> string option" where
  "ubuntu_version_match s = Some (takeWhile (\<lambda>c. c \<noteq> CHR ''-'') (strip_epochs s))"

text \<open>
  \<^verbatim>\<open>_pattern = re.compile(r" *(?P<package>[^ ]*)( *\((?P<version>.*)\))? *")\<close>.
  Leading blanks are skipped, the package group is the longest run without a
  blank, and the optional group matches when the next character after further
  blanks is an opening parenthesis and a closing one follows somewhere: the greedy
  \<^verbatim>\<open>.*\<close> then runs to the last closing parenthesis of the string. The result is the
  pair of groups \<^verbatim>\<open>package\<close> and \<^verbatim>\<open>version\<close> (\<open>None\<close> for Python's \<^verbatim>\<open>None\<close>).
\<close>

definition up_to_last_paren :: "string \<Rightarrow> string" where
  "up_to_last_paren t = rev (tl (dropWhile (\<lambda>c. c \<noteq> CHR '')'') (rev t)))"

definition pattern_match :: "string \<Rightarrow> (string \<times> string option) option" where
  "pattern_match dep =
     (let s = dropWhile (\<lambda>c. c = CHR '' '') dep;
          pkg = takeWhile (\<lambda>c. c \<noteq> CHR '' '') s;
          r = dropWhile (\<lambda>c. c = CHR '' '') (dropWhile (\<lambda>c. c \<noteq> CHR '' '') s)
      in case r of
           [] \<Rightarrow> Some (pkg, None)
         | c # t \<Rightarrow>
             if c = CHR ''('' \<and> CHR '')'' \<in> set t
             then Some (pkg, Some (up_to_last_paren t))
             else Some (pkg, None))"

section \<open>Data model\<close>

text \<open>
  \<^verbatim>\<open>Dependency\<close> and \<^verbatim>\<open>Package\<close> are declared in \<^verbatim>\<open>dependencies.py\<close>, outside the
  files at hand; the records hold the fields the resolver passes to their
  constructors and reads back. A source given as a resolver object is stored by
  its name (\<^verbatim>\<open>dependency.source != "ubuntu"\<close> compares it with a string), and the
  dependencies of a package are a set (\<^verbatim>\<open>update_dependencies\<close> calls \<^verbatim>\<open>union\<close> on
  them). The types \<open>'v\<close> and \<open>'s\<close> stand for \<^verbatim>\<open>Version\<close> and \<^verbatim>\<open>SimpleSpec\<close>.
\<close>

record 's dependency =
  package :: string
  semantic_version :: 's
  source :: string

record ('v, 's) package =
  name :: string
  version :: 'v
  pkg_source :: string
  dependencies :: "'s dependency set"

text \<open>
  Exceptions. What a collaborator outside these files raises is an \<open>ext_error\<close>,
  split the way the \<^verbatim>\<open>except\<close> clause of \<^verbatim>\<open>resolve\<close> splits it. The resolver's own two
  \<^verbatim>\<open>raise ValueError(...)\<close> statements are told apart by where they are raised.
\<close>

datatype ext_error = ExtValueError | ExtCalledProcessError | ExtOtherException

datatype error =
    UnsupportedSource
  | InvalidDependencyLine
  | External ext_error

text \<open>
  The collaborators of \<^verbatim>\<open>resolver.py\<close> that are imported from modules outside these
  files, taken as parameters:
  \<^item> \<open>Version_coerce\<close>: \<^verbatim>\<open>Version.coerce(s)\<close>;
  \<^item> \<open>SimpleSpec\<close>: the constructor \<^verbatim>\<open>SimpleSpec(s)\<close>, which raises on a string it
    cannot parse;
  \<^item> \<open>spec_contains spec v\<close>: the test \<^verbatim>\<open>v in spec\<close>;
  \<^item> \<open>default_spec\<close>: the constraint of a \<^verbatim>\<open>Dependency\<close> built without a
    \<^verbatim>\<open>semantic_version\<close> argument;
  \<^item> \<open>run_command\<close>: \<^verbatim>\<open>run_command(*args).decode("utf8")\<close>, the decoded output of the
    external command;
  \<^item> \<open>file_to_packages\<close>: the file-to-package index of \<^verbatim>\<open>apt.py\<close>, read to its end;
  \<^item> \<open>get_native_dependencies\<close>: the native dependencies of a package, as a set.
\<close>

record ('v, 's) collaborators =
  Version_coerce :: "string \<Rightarrow> ext_error + 'v"
  SimpleSpec :: "string \<Rightarrow> ext_error + 's"
  spec_contains :: "'s \<Rightarrow> 'v \<Rightarrow> bool"
  default_spec :: 's
  run_command :: "string list \<Rightarrow> ext_error + string"
  file_to_packages :: "string \<Rightarrow> ext_error + string list"
  get_native_dependencies :: "('v, 's) package \<Rightarrow> ext_error + 's dependency set"

section \<open>\<^verbatim>\<open>UbuntuResolver.ubuntu_packages\<close>\<close>

text \<open>
  Lines 52 to 65: one element of the \<^verbatim>\<open>Depends:\<close> list. The \<^verbatim>\<open>try\<close> block fails when the
  version group is \<^verbatim>\<open>None\<close> (an \<^verbatim>\<open>AttributeError\<close>) or when \<^verbatim>\<open>SimpleSpec\<close> rejects the
  constraint without its blanks; \<^verbatim>\<open>except Exception\<close> then sets the constraint to
  \<^verbatim>\<open>"*"\<close>. The \<^verbatim>\<open>print\<close> of the handler writes to standard output and changes no
  value, so it is left out, as is the logging.
\<close>

definition dep_constraint :: "('v, 's) collaborators \<Rightarrow> string option \<Rightarrow> string" where
  "dep_constraint env dep_version =
     (case dep_version of
        None \<Rightarrow> ''*''
      | Some dv \<Rightarrow>
          (case SimpleSpec env (remove_spaces dv) of
             Inl e \<Rightarrow> ''*''
           | Inr spec \<Rightarrow> remove_spaces dv))"

fun parse_deps :: "('v, 's) collaborators \<Rightarrow> string list \<Rightarrow> error + (string \<times> string) list" where
  "parse_deps env [] = Inr []"
| "parse_deps env (dep # rest) =
     (case pattern_match dep of
        None \<Rightarrow> Inl InvalidDependencyLine
      | Some (dep_package, dep_version) \<Rightarrow>
          (case parse_deps env rest of
             Inl e \<Rightarrow> Inl e
           | Inr deps \<Rightarrow> Inr ((dep_package, dep_constraint env dep_version) # deps)))"

text \<open>
  Lines 70 to 77: the generator handed to \<^verbatim>\<open>Package\<close>, consumed when the package is
  built. Each element calls \<^verbatim>\<open>SimpleSpec(ver)\<close> again.
\<close>

fun make_dependencies :: "('v, 's) collaborators \<Rightarrow> (string \<times> string) list \<Rightarrow> error + 's dependency list" where
  "make_dependencies env [] = Inr []"
| "make_dependencies env ((pkg, ver) # rest) =
     (case SimpleSpec env ver of
        Inl e \<Rightarrow> Inl (External e)
      | Inr spec \<Rightarrow>
          (case make_dependencies env rest of
             Inl e \<Rightarrow> Inl e
           | Inr ds \<Rightarrow>
               Inr (\<lparr>package = pkg, semantic_version = spec, source = ''ubuntu''\<rparr> # ds)))"

text \<open>
  Lines 41 to 80: the loop over the lines of the output, with its two variables
  \<^verbatim>\<open>version\<close> and \<^verbatim>\<open>packages\<close>. Both \<^verbatim>\<open>"Version: "\<close> and \<^verbatim>\<open>"Depends: "\<close> are nine
  characters long. The second branch reads \<open>the ver\<close> under its own test
  \<open>ver \<noteq> None\<close> only, as the \<^verbatim>\<open>elif\<close> reads \<^verbatim>\<open>version\<close> after \<^verbatim>\<open>version is not None\<close>.
  A failed match of the version pattern leaves \<^verbatim>\<open>version\<close> as it was (line 49 only
  logs).
\<close>

fun parse_lines ::
  "('v, 's) collaborators \<Rightarrow> string \<Rightarrow> 'v option \<Rightarrow> ('v, 's) package list \<Rightarrow> string list
     \<Rightarrow> error + ('v, 's) package list" where
  "parse_lines env package_name ver packages [] = Inr packages"
| "parse_lines env package_name ver packages (line # rest) =
     (if startswith line ''Version: '' then
        (case ubuntu_version_match (drop 9 line) of
           Some grp \<Rightarrow>
             (case Version_coerce env grp of
                Inl e \<Rightarrow> Inl (External e)
              | Inr v \<Rightarrow> parse_lines env package_name (Some v) packages rest)
         | None \<Rightarrow> parse_lines env package_name ver packages rest)
      else if ver \<noteq> None \<and> startswith line ''Depends: '' then
        (case parse_deps env (split CHR '','' (drop 9 line)) of
           Inl e \<Rightarrow> Inl e
         | Inr deps \<Rightarrow>
             (case make_dependencies env deps of
                Inl e \<Rightarrow> Inl e
              | Inr ds \<Rightarrow>
                  parse_lines env package_name None
                    (packages @
                      [\<lparr>name = package_name, version = the ver, pkg_source = ''ubuntu'',
                        dependencies = set ds\<rparr>])
                    rest))
      else parse_lines env package_name ver packages rest)"

text \<open>
  The function is memoised by \<^verbatim>\<open>lru_cache\<close>; with the collaborators fixed, a cached
  answer is the answer of a fresh call, so the cache is not modelled.
\<close>

definition ubuntu_packages ::
  "('v, 's) collaborators \<Rightarrow> string \<Rightarrow> error + ('v, 's) package list" where
  "ubuntu_packages env package_name =
     (case run_command env [''apt'', ''show'', ''-a'', package_name] of
        Inl e \<Rightarrow> Inl (External e)
      | Inr contents \<Rightarrow>
          if contents = [] then Inr []
          else parse_lines env package_name None [] (split (CHR 0x0A) contents))"

section \<open>\<^verbatim>\<open>UbuntuResolver.resolve\<close> and the other methods\<close>

text \<open>
  \<^verbatim>\<open>resolve\<close> is a generator; its model is the outcome of running it to its end:
  the list of the packages yielded, or the exception that leaves it. Every
  exception of this function is raised before the first \<^verbatim>\<open>yield\<close>. The handler
  \<^verbatim>\<open>except (ValueError, subprocess.CalledProcessError): pass\<close> of the file-path branch
  is \<open>recover\<close>.
\<close>

definition recover :: "ext_error \<Rightarrow> error + ('v, 's) package list" where
  "recover e =
     (if e = ExtValueError \<or> e = ExtCalledProcessError then Inr [] else Inl (External e))"

definition resolve ::
  "('v, 's) collaborators \<Rightarrow> 's dependency \<Rightarrow> error + ('v, 's) package list" where
  "resolve env dep =
     (if source dep \<noteq> ''ubuntu'' then Inl UnsupportedSource
      else if startswith (package dep) ''/'' then
        (case file_to_packages env (package dep) of
           Inl e \<Rightarrow> recover e
         | Inr pkg_names \<Rightarrow>
             (let deps = map (\<lambda>pkg_name.
                    \<lparr>package = pkg_name, semantic_version = default_spec env,
                      source = ''ubuntu''\<rparr>) pkg_names
              in if deps \<noteq> [] then
                   (case Version_coerce env ''0'' of
                      Inl e \<Rightarrow> recover e
                    | Inr v \<Rightarrow>
                        Inr [\<lparr>name = package dep, version = v, pkg_source = source dep,
                              dependencies = set deps\<rparr>])
                 else Inr []))
      else
        (case ubuntu_packages env (package dep) of
           Inl e \<Rightarrow> Inl e
         | Inr packages \<Rightarrow>
             Inr (filter (\<lambda>p. spec_contains env (semantic_version dep) (version p)) packages)))"



definition can_update_dependencies :: "('v, 's) package \<Rightarrow> bool" where
  "can_update_dependencies p = (pkg_source p \<noteq> ''ubuntu'')"

definition update_dependencies ::
  "('v, 's) collaborators \<Rightarrow> ('v, 's) package \<Rightarrow> error + ('v, 's) package" where
  "update_dependencies env p =
     (case get_native_dependencies env p of
        Inl e \<Rightarrow> Inl (External e)
      | Inr native_deps \<Rightarrow> Inr (p\<lparr>dependencies := dependencies p \<union> native_deps\<rparr>))"

section \<open>The ordering of resolvers\<close>






section \<open>A reference instance of the collaborators\<close>

text \<open>
  Modelled from the spec: \<^verbatim>\<open>Version\<close> and \<^verbatim>\<open>SimpleSpec\<close>, which \<^verbatim>\<open>dependencies.py\<close>
  exports and which are not in the files at hand. Section 4.1 of the spec:
  ``versions compare component-wise left to right; missing trailing components
  are treated as zero''; \<^verbatim>\<open>coerce\<close> is a ``best-effort parse that never fails'';
  constraints are ``the ordinary inequality/wildcard range language'', and
  ``\<^verbatim>\<open>*\<close> matches every version''. The instance keeps three numeric components
  and the constraints \<^verbatim>\<open>*\<close>, \<^verbatim>\<open>>=\<close>, \<^verbatim>\<open><\<close> and \<^verbatim>\<open>=\<close>; it is used for concrete inputs only,
  and no theorem about all collaborators depends on it.
\<close>

type_synonym sem_version = "nat \<times> nat \<times> nat"

datatype sem_spec = AnyVersion | AtLeast sem_version | Below sem_version | Exactly sem_version

definition digit_value :: "char \<Rightarrow> nat" where
  "digit_value c = of_char c - 48"

definition nat_of_digits :: "string \<Rightarrow> nat" where
  "nat_of_digits ds = foldl (\<lambda>n c. 10 * n + digit_value c) 0 ds"

definition numeric_prefix :: "string \<Rightarrow> string" where
  "numeric_prefix s = takeWhile (\<lambda>c. is_digit c \<or> c = CHR ''.'') s"

definition sv_parse :: "string \<Rightarrow> sem_version" where
  "sv_parse s =
     (case map nat_of_digits (split CHR ''.'' (numeric_prefix s)) of
        [] \<Rightarrow> (0, 0, 0)
      | [a] \<Rightarrow> (a, 0, 0)
      | [a, b] \<Rightarrow> (a, b, 0)
      | a # b # c # others \<Rightarrow> (a, b, c))"

definition sv_coerce :: "string \<Rightarrow> ext_error + sem_version" where
  "sv_coerce s = Inr (sv_parse s)"

fun sv_less :: "sem_version \<Rightarrow> sem_version \<Rightarrow> bool" where
  "sv_less (a, b, c) (a', b', c') = (a < a' \<or> (a = a' \<and> (b < b' \<or> (b = b' \<and> c < c'))))"

definition is_numeric :: "string \<Rightarrow> bool" where
  "is_numeric s = (s \<noteq> [] \<and> is_digit (hd s) \<and> numeric_prefix s = s)"

definition sv_SimpleSpec :: "string \<Rightarrow> ext_error + sem_spec" where
  "sv_SimpleSpec s =
     (if s = ''*'' then Inr AnyVersion
      else if startswith s ''>='' \<and> is_numeric (drop 2 s) then Inr (AtLeast (sv_parse (drop 2 s)))
      else if startswith s ''<'' \<and> is_numeric (drop 1 s) then Inr (Below (sv_parse (drop 1 s)))
      else if startswith s ''='' \<and> is_numeric (drop 1 s) then Inr (Exactly (sv_parse (drop 1 s)))
      else Inl ExtValueError)"

fun sv_contains :: "sem_spec \<Rightarrow> sem_version \<Rightarrow> bool" where
  "sv_contains AnyVersion v = True"
| "sv_contains (AtLeast w) v = (\<not> sv_less v w)"
| "sv_contains (Below w) v = sv_less v w"
| "sv_contains (Exactly w) v = (v = w)"

text \<open>
  The instance, for an apt backend \<open>apt\<close>, a file index \<open>index\<close> and a
  native-dependency scan \<open>native\<close>.
\<close>

definition reference_env ::
  "(string list \<Rightarrow> ext_error + string) \<Rightarrow> (string \<Rightarrow> ext_error + string list) \<Rightarrow>
   ((sem_version, sem_spec) package \<Rightarrow> ext_error + sem_spec dependency set) \<Rightarrow>
   (sem_version, sem_spec) collaborators" where
  "reference_env apt index native =
     \<lparr>Version_coerce = sv_coerce, SimpleSpec = sv_SimpleSpec, spec_contains = sv_contains,
      default_spec = AnyVersion, run_command = apt, file_to_packages = index,
      get_native_dependencies = native\<rparr>"

text \<open>An apt backend that knows one package and prints the given lines for it.\<close>

definition apt_show :: "string \<Rightarrow> string list \<Rightarrow> string list \<Rightarrow> ext_error + string" where
  "apt_show known output args =
     (if args = [''apt'', ''show'', ''-a'', known] then Inr (join_lines output) else Inr [])"

definition no_index :: "string \<Rightarrow> ext_error + string list" where
  "no_index path = Inr []"

definition no_native :: "(sem_version, sem_spec) package \<Rightarrow> ext_error + sem_spec dependency set" where
  "no_native p = Inr {}"

section \<open>\<^verbatim>\<open>utils.py\<close>: the popularity database\<close>

text \<open>
  \<^verbatim>\<open>_popularity\<close> reads names that are neither parameters nor assigned in its body, so
  Python looks them up among the globals of the module and then among the
  builtins, and raises \<^verbatim>\<open>NameError\<close> when both lookups fail. \<open>utils_globals\<close> lists
  what the module binds at its top level: the six imports of lines 1 to 6 and the
  variables and functions defined at lines 8, 10, 12, 42, 43, 53, 55, 97 and 122,
  with the two names every module has. \<open>builtin_names\<close> are the builtins the
  module reads. The function \<^verbatim>\<open>_popularity\<close> is \<open>popularity\<close> here; its \<^verbatim>\<open>lru_cache\<close>
  stores no call that raises.
\<close>

datatype pyval =
    Module string
  | Function string
  | Builtin string
  | Str string
  | Logger
  | Dict
  | NoneValue

datatype utils_error = NameError string | ValueError string | IOError

definition utils_globals :: "(string \<times> pyval) list" where
  "utils_globals =
     [(''functools'', Module ''functools''), (''os'', Module ''os''), (''re'', Module ''re''),
      (''logging'', Module ''logging''), (''subprocess'', Module ''subprocess''),
      (''gzip'', Module ''gzip''), (''logger'', Logger), (''popdb'', Dict),
      (''_popularity'', Function ''_popularity''), (''all_packages'', NoneValue),
      (''get_apt_packages'', Function ''get_apt_packages''), (''contents_db'', Dict),
      (''_file_to_package_contents'', Function ''_file_to_package_contents''),
      (''_file_to_package_apt_file'', Function ''_file_to_package_apt_file''),
      (''file_to_package'', Function ''file_to_package''),
      (''__name__'', Str ''it_depends.utils''), (''__file__'', Str ''it_depends/utils.py'')]"

definition builtin_names :: "string list" where
  "builtin_names =
     [''ValueError'', ''print'', ''len'', ''tuple'', ''map'']"

definition load_global :: "string \<Rightarrow> utils_error + pyval" where
  "load_global n =
     (case map_of utils_globals n of
        Some v \<Rightarrow> Inr v
      | None \<Rightarrow> if n \<in> set builtin_names then Inr (Builtin n) else Inl (NameError n))"

text \<open>
  What the body of \<^verbatim>\<open>_popularity\<close> reads from outside: whether the dictionary
  \<^verbatim>\<open>popdb\<close> is empty, whether the database file exists, how the download ends and
  what reading the compressed file gives.
\<close>

record popularity_world =
  popdb_empty :: bool
  dbfile_exists :: bool
  urlretrieve :: "utils_error option"
  gzip_lines :: "utils_error + string list"

definition fetch_dbfile :: "popularity_world \<Rightarrow> utils_error + unit" where
  "fetch_dbfile w =
     (if dbfile_exists w then Inr ()
      else (case load_global ''urllib'' of
              Inl e \<Rightarrow> Inl e
            | Inr urllib \<Rightarrow> (case urlretrieve w of Some e \<Rightarrow> Inl e | None \<Rightarrow> Inr ())))"

definition popularity :: "popularity_world \<Rightarrow> string \<Rightarrow> utils_error + int" where
  "popularity w packagename =
     (case load_global ''arch'' of
        Inl e \<Rightarrow> Inl e
      | Inr arch \<Rightarrow>
          if arch \<noteq> Str ''amd64'' \<and> arch \<noteq> Str ''i386''
          then Inl (ValueError ''Only amd64 and i386 supported'')
          else if popdb_empty w then
            (case fetch_dbfile w of
               Inl e \<Rightarrow> Inl e
             | Inr u \<Rightarrow> (case gzip_lines w of Inl e \<Rightarrow> Inl e | Inr ls \<Rightarrow> Inr 0))
          else Inr 0)"

section \<open>Vocabulary of the statements and concrete inputs\<close>

text \<open>A string that begins with an epoch block: one digit or more, then a colon.\<close>

definition epoch_prefixed :: "string \<Rightarrow> bool" where
  "epoch_prefixed s =
     (takeWhile is_digit s \<noteq> [] \<and>
      (case dropWhile is_digit s of [] \<Rightarrow> False | c # rest \<Rightarrow> c = CHR '':''))"

text \<open>
  Output of \<^verbatim>\<open>apt show -a\<close> in the shape the resolver reads: a stanza with an epoch,
  a revision and a constraint that carries an epoch, and a stanza without a
  \<^verbatim>\<open>Depends:\<close> line.
\<close>

definition vim_output :: "string list" where
  "vim_output =
     [''Package: vim'',
      ''Version: 2:8.1.2269-1ubuntu5'',
      ''Depends: vim-common (= 2:8.1.2269-1ubuntu5), libc6 (>= 2.29)'',
      []]"

definition fonts_output :: "string list" where
  "fonts_output =
     [''Package: fonts-dejavu-core'',
      ''Version: 2.37-1'',
      ''Priority: optional'',
      []]"

text \<open>An apt backend whose command exits with a non-zero status.\<close>

definition failing_apt :: "string list \<Rightarrow> ext_error + string" where
  "failing_apt args = Inl ExtCalledProcessError"

text \<open>
  A file index that knows the owner of one shared library, and a native scan
  that reports this library for every package.
\<close>

definition libc_index :: "string \<Rightarrow> ext_error + string list" where
  "libc_index path = (if path = ''/lib/libc.so.6'' then Inr [''libc6''] else Inr [])"

definition libc_native ::
  "(sem_version, sem_spec) package \<Rightarrow> ext_error + sem_spec dependency set" where
  "libc_native p =
     Inr {\<lparr>package = ''/lib/libc.so.6'', semantic_version = AnyVersion, source = ''ubuntu''\<rparr>}"

section \<open>Which exceptions leave the resolver\<close>

lemma parse_deps_not_unsupported: "parse_deps env ds \<noteq> Inl UnsupportedSource"
  by (induction ds) (auto split: option.splits sum.splits prod.splits)

lemma make_dependencies_external:
  "make_dependencies env ds = Inl e \<Longrightarrow> \<exists>x. e = External x"
  by (induction ds arbitrary: e) (auto split: sum.splits)

lemma parse_lines_not_unsupported:
  "parse_lines env n ver pkgs ls \<noteq> Inl UnsupportedSource"
proof (induction ls arbitrary: ver pkgs)
  case Nil
  show ?case by simp
next
  case (Cons l ls)
  show ?case
    using Cons.IH parse_deps_not_unsupported [of env]
    by (auto split: option.splits sum.splits dest: make_dependencies_external)
qed

lemma ubuntu_packages_not_unsupported:
  "ubuntu_packages env n \<noteq> Inl UnsupportedSource"
  by (auto simp: ubuntu_packages_def parse_lines_not_unsupported split: sum.splits)

lemma recover_not_unsupported: "recover e \<noteq> Inl UnsupportedSource"
  by (simp add: recover_def)

text \<open>
  Claim C4. \<^verbatim>\<open>resolve\<close> ends with the exception of line 84 (the \<^verbatim>\<open>ValueError\<close> saying
  that the resolver ``can not resolve dependencies from other sources'', the
  spec's \<^verbatim>\<open>UnsupportedSourceError\<close>) exactly when the source of the dependency is
  not \<^verbatim>\<open>"ubuntu"\<close>. The outcome \<open>Inl\<close> carries no package: the exception is raised
  before anything is yielded. For a dependency of source \<^verbatim>\<open>"ubuntu"\<close> the outcome is
  never this exception, whatever the collaborators do.
\<close>

theorem resolve_unsupported_source:
  "resolve env dep = Inl UnsupportedSource \<longleftrightarrow> source dep \<noteq> ''ubuntu''"
proof (cases "source dep = ''ubuntu''")
  case False
  then show ?thesis by (simp add: resolve_def)
next
  case True
  have "resolve env dep \<noteq> Inl UnsupportedSource"
  proof (cases "startswith (package dep) ''/''")
    case path: True
    show ?thesis
      using True path recover_not_unsupported
      by (auto simp: resolve_def Let_def split: sum.splits)
  next
    case named: False
    show ?thesis
      using True named ubuntu_packages_not_unsupported [of env "package dep"]
      by (auto simp: resolve_def split: sum.splits)
  qed
  with True show ?thesis by simp
qed

section \<open>The popularity database never answers\<close>

text \<open>
  Claim C9. For every argument and whatever the file system and the network do,
  \<^verbatim>\<open>_popularity\<close> ends with a \<^verbatim>\<open>NameError\<close> for the name \<^verbatim>\<open>arch\<close>, read by its first
  statement, so it returns no popularity value; the name \<^verbatim>\<open>urllib\<close>, read further
  down, is not bound in the module either.
\<close>

theorem popularity_raises_NameError:
  "popularity w packagename = Inl (NameError ''arch'') \<and>
   load_global ''urllib'' = Inl (NameError ''urllib'')"
  by (simp add: popularity_def load_global_def utils_globals_def builtin_names_def)

section \<open>The version line\<close>

lemma not_digit_colon: "\<not> is_digit CHR '':''" "\<not> is_digit CHR ''-''"
  by (simp_all add: is_digit_def)

lemma takeWhile_until: "c \<notin> set u \<Longrightarrow> takeWhile (\<lambda>x. x \<noteq> c) (u @ c # r) = u"
  by (induction u) auto

lemma dropWhile_found: "\<exists>x \<in> set u. \<not> P x \<Longrightarrow> dropWhile P (u @ r) = dropWhile P u @ r"
  by (induction u) auto

lemma takeWhile_found: "\<exists>x \<in> set u. \<not> P x \<Longrightarrow> takeWhile P (u @ r) = takeWhile P u"
  by (induction u) auto

lemma strip_epochs_epoch:
  assumes "epoch \<noteq> []" and "\<forall>c \<in> set epoch. is_digit c"
  shows "strip_epochs (epoch @ CHR '':'' # r) = strip_epochs r"
proof -
  have t: "takeWhile is_digit (epoch @ CHR '':'' # r) = epoch"
    using assms(2) by (simp add: takeWhile_append2 not_digit_colon)
  have d: "dropWhile is_digit (epoch @ CHR '':'' # r) = CHR '':'' # r"
    using assms(2) by (simp add: dropWhile_append2 not_digit_colon)
  show ?thesis
    by (subst strip_epochs.simps) (simp add: t d assms(1))
qed

lemma strip_epochs_subset: "set (strip_epochs s) \<subseteq> set s"
proof (induction s rule: strip_epochs.induct)
  case (1 s)
  show ?case
  proof (cases "dropWhile is_digit s")
    case Nil
    show ?thesis by (subst strip_epochs.simps, subst Nil, simp)
  next
    case (Cons c t)
    show ?thesis
    proof (cases "takeWhile is_digit s \<noteq> [] \<and> c = CHR '':''")
      case True
      with Cons have "strip_epochs s = strip_epochs t"
        by (subst strip_epochs.simps) simp
      moreover have "set (strip_epochs t) \<subseteq> set t"
        using "1.IH" [OF Cons True] .
      moreover have "set t \<subseteq> set s"
        using Cons by (metis set_dropWhileD list.set_intros(2) subsetI)
      ultimately show ?thesis by auto
    next
      case False
      with Cons show ?thesis by (subst strip_epochs.simps) auto
    qed
  qed
qed

lemma strip_epochs_hyphen:
  "CHR ''-'' \<notin> set u \<Longrightarrow> strip_epochs (u @ CHR ''-'' # r) = strip_epochs u @ CHR ''-'' # r"
proof (induction u rule: strip_epochs.induct)
  case (1 u)
  show ?case
  proof (cases "\<forall>c \<in> set u. is_digit c")
    case True
    then have d: "dropWhile is_digit (u @ CHR ''-'' # r) = CHR ''-'' # r"
      and du: "dropWhile is_digit u = []"
      by (simp_all add: dropWhile_append2 not_digit_colon)
    have "strip_epochs (u @ CHR ''-'' # r) = u @ CHR ''-'' # r"
      using d by (subst strip_epochs.simps) simp
    moreover have "strip_epochs u = u"
      by (subst strip_epochs.simps, subst du, simp)
    ultimately show ?thesis by simp
  next
    case False
    then obtain c t where ct: "dropWhile is_digit u = c # t"
      by (metis dropWhile_eq_Nil_conv list.exhaust)
    have d: "dropWhile is_digit (u @ CHR ''-'' # r) = c # t @ CHR ''-'' # r"
      using False ct dropWhile_found [of u is_digit "CHR ''-'' # r"] by simp
    have t: "takeWhile is_digit (u @ CHR ''-'' # r) = takeWhile is_digit u"
      using False takeWhile_found [of u is_digit "CHR ''-'' # r"] by simp
    show ?thesis
    proof (cases "takeWhile is_digit u \<noteq> [] \<and> c = CHR '':''")
      case True
      have "set t \<subseteq> set u"
        using ct by (metis set_dropWhileD list.set_intros(2) subsetI)
      with "1.prems" have "CHR ''-'' \<notin> set t" by auto
      from "1.IH" [OF ct True this]
      have ih: "strip_epochs (t @ CHR ''-'' # r) = strip_epochs t @ CHR ''-'' # r" .
      have "strip_epochs (u @ CHR ''-'' # r) = strip_epochs (t @ CHR ''-'' # r)"
        using True d t by (subst strip_epochs.simps) simp
      moreover have "strip_epochs u = strip_epochs t"
        using True ct by (subst strip_epochs.simps) simp
      ultimately show ?thesis using ih by simp
    next
      case False
      have "strip_epochs (u @ CHR ''-'' # r) = u @ CHR ''-'' # r"
        using False d t by (subst strip_epochs.simps) auto
      moreover have "strip_epochs u = u"
        using False ct by (subst strip_epochs.simps) auto
      ultimately show ?thesis by simp
    qed
  qed
qed

lemma strip_epochs_unprefixed:
  assumes "\<not> epoch_prefixed u"
  shows "strip_epochs u = u"
proof (cases "dropWhile is_digit u")
  case Nil
  show ?thesis by (subst strip_epochs.simps, subst Nil, simp)
next
  case (Cons c t)
  with assms have "\<not> (takeWhile is_digit u \<noteq> [] \<and> c = CHR '':'')"
    by (simp add: epoch_prefixed_def)
  then show ?thesis
    by (subst strip_epochs.simps, subst Cons) auto
qed

lemma ubuntu_version_match_blocks:
  assumes "epoch \<noteq> []" and "\<forall>c \<in> set epoch. is_digit c"
    and "CHR ''-'' \<notin> set upstream"
  shows "ubuntu_version_match (epoch @ '':'' @ upstream @ ''-'' @ revision) =
         Some (strip_epochs upstream)"
proof -
  have "strip_epochs (epoch @ '':'' @ upstream @ ''-'' @ revision) =
        strip_epochs upstream @ ''-'' @ revision"
    using strip_epochs_epoch [OF assms(1,2)] strip_epochs_hyphen [OF assms(3)] by simp
  moreover have "CHR ''-'' \<notin> set (strip_epochs upstream)"
    using assms(3) strip_epochs_subset [of upstream] by auto
  then have "takeWhile (\<lambda>c. c \<noteq> CHR ''-'') (strip_epochs upstream @ ''-'' @ revision) =
             strip_epochs upstream"
    by (simp add: takeWhile_until)
  ultimately show ?thesis by (simp add: ubuntu_version_match_def)
qed

lemma startswith_append: "startswith (p @ s) p"
  by (simp add: startswith_def)

text \<open>
  Claim C7, as the code has it. Take a line
  \<^verbatim>\<open>Version: <epoch>:<upstream>-<revision>\<close> where the epoch is one digit or more and
  the upstream part holds no hyphen (the revision is everything from the first
  hyphen). The pattern strips every leading block of digits and a colon, those
  the upstream part itself begins with included, and the revision: the named
  group is the upstream part without its leading blocks, and the loop goes on
  with \<^verbatim>\<open>version\<close> set to \<^verbatim>\<open>Version.coerce\<close> of that string, the version of the
  package built from this stanza. It is \<^verbatim>\<open>Version.coerce(<upstream>)\<close> when the
  upstream part begins with no such block. The match never fails; the step
  fails only when \<^verbatim>\<open>Version.coerce\<close> itself raises.
\<close>

theorem version_line_strips_epoch_and_revision:
  assumes "epoch \<noteq> []" and "\<forall>c \<in> set epoch. is_digit c"
    and "CHR ''-'' \<notin> set upstream"
  shows "ubuntu_version_match (epoch @ '':'' @ upstream @ ''-'' @ revision) =
           Some (strip_epochs upstream) \<and>
         parse_lines env n ver pkgs
           ((''Version: '' @ epoch @ '':'' @ upstream @ ''-'' @ revision) # rest) =
         (case Version_coerce env (strip_epochs upstream) of
            Inl e \<Rightarrow> Inl (External e)
          | Inr v \<Rightarrow> parse_lines env n (Some v) pkgs rest) \<and>
         (\<not> epoch_prefixed upstream \<longrightarrow> strip_epochs upstream = upstream)"
proof -
  let ?v = "epoch @ '':'' @ upstream @ ''-'' @ revision"
  have m: "ubuntu_version_match ?v = Some (strip_epochs upstream)"
    by (rule ubuntu_version_match_blocks [OF assms])
  have s: "startswith (''Version: '' @ ?v) ''Version: ''"
    by (rule startswith_append)
  have d: "drop 9 (''Version: '' @ ?v) = ?v" by simp
  have "parse_lines env n ver pkgs ((''Version: '' @ ?v) # rest) =
        (case Version_coerce env (strip_epochs upstream) of
            Inl e \<Rightarrow> Inl (External e)
          | Inr v \<Rightarrow> parse_lines env n (Some v) pkgs rest)"
    unfolding parse_lines.simps using s m d by (simp only: if_True option.case)
  with m strip_epochs_unprefixed [of upstream] show ?thesis by simp
qed

theorem version_line_witness:
  "is_digit CHR ''2'' \<and> CHR ''-'' \<notin> set ''8.1.2269'' \<and> \<not> epoch_prefixed ''8.1.2269'' \<and>
   ubuntu_version_match ''2:8.1.2269-1ubuntu5'' = Some ''8.1.2269'' \<and>
   parse_lines (reference_env (apt_show ''vim'' vim_output) no_index no_native) ''vim'' None []
     [''Version: 2:8.1.2269-1ubuntu5'', ''Depends: libc6 (>= 2.29)''] =
   Inr [\<lparr>name = ''vim'', version = (8, 1, 2269), pkg_source = ''ubuntu'',
         dependencies =
           {\<lparr>package = ''libc6'', semantic_version = AtLeast (2, 29, 0), source = ''ubuntu''\<rparr>}\<rparr>]"
proof -
  let ?env = "reference_env (apt_show ''vim'' vim_output) no_index no_native"
  have h1: "''2'' \<noteq> []" by simp
  have h2: "\<forall>c \<in> set ''2''. is_digit c" by (simp add: is_digit_def)
  have h3: "CHR ''-'' \<notin> set ''8.1.2269''" by simp
  have h4: "\<not> epoch_prefixed ''8.1.2269''" by (simp add: epoch_prefixed_def is_digit_def)
  have c: "Version_coerce ?env ''8.1.2269'' = Inr (8, 1, 2269)" by code_simp
  have r: "parse_lines ?env ''vim'' (Some (8, 1, 2269)) [] [''Depends: libc6 (>= 2.29)''] =
    Inr [\<lparr>name = ''vim'', version = (8, 1, 2269), pkg_source = ''ubuntu'',
         dependencies =
           {\<lparr>package = ''libc6'', semantic_version = AtLeast (2, 29, 0), source = ''ubuntu''\<rparr>}\<rparr>]"
    by code_simp
  from version_line_strips_epoch_and_revision
    [OF h1 h2 h3, of "''1ubuntu5''" ?env "''vim''" None "[]" "[''Depends: libc6 (>= 2.29)'']"]
  show ?thesis using h2 h3 h4 c r by simp
qed

text \<open>
  The claim as it is worded fails on the line \<^verbatim>\<open>Version: 1:2:3.4-5\<close>, of epoch \<^verbatim>\<open>1\<close>,
  upstream part \<^verbatim>\<open>2:3.4\<close> and revision \<^verbatim>\<open>5\<close>: the pattern strips \<^verbatim>\<open>2:\<close> as well, the
  group is \<^verbatim>\<open>3.4\<close>, and the package has the version \<^verbatim>\<open>3.4.0\<close>, where coercing the
  upstream part gives the major version \<^verbatim>\<open>2\<close>.
\<close>

theorem second_epoch_block_is_stripped:
  "ubuntu_version_match ''1:2:3.4-5'' = Some ''3.4'' \<and>
   ''3.4'' \<noteq> ''2:3.4'' \<and>
   parse_lines (reference_env (apt_show ''vim'' vim_output) no_index no_native) ''vim'' None []
     [''Version: 1:2:3.4-5'', ''Depends: libc6 (>= 2.29)''] =
   Inr [\<lparr>name = ''vim'', version = (3, 4, 0), pkg_source = ''ubuntu'',
         dependencies =
           {\<lparr>package = ''libc6'', semantic_version = AtLeast (2, 29, 0), source = ''ubuntu''\<rparr>}\<rparr>] \<and>
   sv_coerce ''2:3.4'' = Inr (2, 0, 0)"
  by code_simp

section \<open>Augmentation with native dependencies\<close>

text \<open>
  Claim C5. \<^verbatim>\<open>update_dependencies\<close> is idempotent: when a first call on a package
  returns, and \<^verbatim>\<open>get_native_dependencies\<close> gives on the augmented package what it
  gave on the package, a second call returns the augmented package unchanged.
  The dependencies after either call are the union of the package's own and the
  native ones, a set, so nothing is duplicated.
\<close>

theorem update_dependencies_idempotent:
  assumes "update_dependencies env p = Inr p'"
    and "get_native_dependencies env p' = get_native_dependencies env p"
  shows "update_dependencies env p' = Inr p' \<and>
         (\<exists>nd. get_native_dependencies env p = Inr nd \<and> dependencies p' = dependencies p \<union> nd)"
proof -
  from assms(1) obtain nd where nd: "get_native_dependencies env p = Inr nd"
    and p': "p' = p\<lparr>dependencies := dependencies p \<union> nd\<rparr>"
    by (auto simp: update_dependencies_def split: sum.splits)
  have "dependencies p' \<union> nd = dependencies p'"
    using p' by auto
  then have "update_dependencies env p' = Inr p'"
    using assms(2) nd by (simp add: update_dependencies_def)
  with nd p' show ?thesis by simp
qed

theorem update_dependencies_idempotent_witness:
  "update_dependencies (reference_env (apt_show ''vim'' vim_output) no_index libc_native)
     \<lparr>name = ''cvedb'', version = (0, 0, 1), pkg_source = ''pip'', dependencies = {}\<rparr> =
   Inr \<lparr>name = ''cvedb'', version = (0, 0, 1), pkg_source = ''pip'',
        dependencies = {\<lparr>package = ''/lib/libc.so.6'', semantic_version = AnyVersion,
                          source = ''ubuntu''\<rparr>}\<rparr> \<and>
   update_dependencies (reference_env (apt_show ''vim'' vim_output) no_index libc_native)
     \<lparr>name = ''cvedb'', version = (0, 0, 1), pkg_source = ''pip'',
        dependencies = {\<lparr>package = ''/lib/libc.so.6'', semantic_version = AnyVersion,
                          source = ''ubuntu''\<rparr>}\<rparr> =
   Inr \<lparr>name = ''cvedb'', version = (0, 0, 1), pkg_source = ''pip'',
        dependencies = {\<lparr>package = ''/lib/libc.so.6'', semantic_version = AnyVersion,
                          source = ''ubuntu''\<rparr>}\<rparr>"
proof -
  let ?env = "reference_env (apt_show ''vim'' vim_output) no_index libc_native"
  let ?p = "\<lparr>name = ''cvedb'', version = (0::nat, 0::nat, 1::nat), pkg_source = ''pip'',
             dependencies = {} :: sem_spec dependency set\<rparr>"
  let ?p' = "\<lparr>name = ''cvedb'', version = (0::nat, 0::nat, 1::nat), pkg_source = ''pip'',
        dependencies = {\<lparr>package = ''/lib/libc.so.6'', semantic_version = AnyVersion,
                          source = ''ubuntu''\<rparr>}\<rparr>"
  have h1: "update_dependencies ?env ?p = Inr ?p'"
    by (simp add: update_dependencies_def reference_env_def libc_native_def)
  have h2: "get_native_dependencies ?env ?p' = get_native_dependencies ?env ?p"
    by (simp add: reference_env_def libc_native_def)
  from update_dependencies_idempotent [OF h1 h2] h1 show ?thesis by simp
qed

section \<open>File-path dependencies and the constraint filter\<close>

lemma resolve_file_path_yields:
  assumes "source dep = ''ubuntu''" and "startswith (package dep) ''/''"
    and "file_to_packages env (package dep) = Inr owners" and "owners \<noteq> []"
    and "Version_coerce env ''0'' = Inr v"
  shows "resolve env dep =
         Inr [\<lparr>name = package dep, version = v, pkg_source = ''ubuntu'',
               dependencies =
                 (\<lambda>pkg_name. \<lparr>package = pkg_name, semantic_version = default_spec env,
                     source = ''ubuntu''\<rparr>) ` set owners\<rparr>]"
  using assms by (auto simp: resolve_def Let_def)

lemma resolve_file_path_outcome:
  assumes "source dep = ''ubuntu''" and "startswith (package dep) ''/''"
    and "resolve env dep = Inr ps"
  shows "ps = [] \<or>
         (\<exists>owners v. file_to_packages env (package dep) = Inr owners \<and> owners \<noteq> [] \<and>
            Version_coerce env ''0'' = Inr v \<and>
            ps = [\<lparr>name = package dep, version = v, pkg_source = ''ubuntu'',
                   dependencies =
                     (\<lambda>pkg_name. \<lparr>package = pkg_name, semantic_version = default_spec env,
                         source = ''ubuntu''\<rparr>) ` set owners\<rparr>])"
proof (cases "file_to_packages env (package dep)")
  case (Inl e)
  with assms have "ps = []"
    by (auto simp: resolve_def recover_def split: if_splits)
  then show ?thesis by simp
next
  case (Inr owners)
  show ?thesis
  proof (cases "owners = []")
    case True
    with assms Inr have "ps = []" by (simp add: resolve_def)
    then show ?thesis by simp
  next
    case False
    show ?thesis
    proof (cases "Version_coerce env ''0''")
      case (Inl e)
      with assms Inr False have "ps = []"
        by (auto simp: resolve_def recover_def split: if_splits)
      then show ?thesis by simp
    next
      case v: (Inr v)
      from resolve_file_path_yields [OF assms(1,2) Inr False v] assms(3)
      have "ps = [\<lparr>name = package dep, version = v, pkg_source = ''ubuntu'',
                    dependencies =
                      (\<lambda>pkg_name. \<lparr>package = pkg_name, semantic_version = default_spec env,
                          source = ''ubuntu''\<rparr>) ` set owners\<rparr>]"
        by simp
      with Inr False v show ?thesis by simp
    qed
  qed
qed

text \<open>
  Claim C10. For a dependency of source \<^verbatim>\<open>"ubuntu"\<close> whose package name begins with
  \<^verbatim>\<open>/\<close>, \<^verbatim>\<open>resolve\<close> yields at most one package; it yields nothing when the file index
  returns no owner; and a package it yields comes from a non-empty list of
  owners, is named after the file path, has the version \<^verbatim>\<open>Version.coerce("0")\<close> and
  depends on one ubuntu dependency per owner, each built without a constraint
  argument.
\<close>

theorem resolve_file_path:
  assumes "source dep = ''ubuntu''" and "startswith (package dep) ''/''"
    and "resolve env dep = Inr ps"
  shows "length ps \<le> 1 \<and>
         (file_to_packages env (package dep) = Inr [] \<longrightarrow> ps = []) \<and>
         (\<forall>p \<in> set ps. \<exists>owners.
             file_to_packages env (package dep) = Inr owners \<and> owners \<noteq> [] \<and>
             name p = package dep \<and> pkg_source p = ''ubuntu'' \<and>
             Version_coerce env ''0'' = Inr (version p) \<and>
             dependencies p =
               (\<lambda>pkg_name. \<lparr>package = pkg_name, semantic_version = default_spec env,
                   source = ''ubuntu''\<rparr>) ` set owners)"
  using resolve_file_path_outcome [OF assms] by auto

theorem resolve_file_path_witness:
  "resolve (reference_env failing_apt libc_index no_native)
     \<lparr>package = ''/lib/libc.so.6'', semantic_version = AnyVersion, source = ''ubuntu''\<rparr> =
   Inr [\<lparr>name = ''/lib/libc.so.6'', version = (0, 0, 0), pkg_source = ''ubuntu'',
         dependencies =
           {\<lparr>package = ''libc6'', semantic_version = AnyVersion, source = ''ubuntu''\<rparr>}\<rparr>] \<and>
   libc_index ''/lib/libc.so.6'' = Inr [''libc6''] \<and>
   sv_coerce ''0'' = Inr (0, 0, 0) \<and>
   resolve (reference_env failing_apt libc_index no_native)
     \<lparr>package = ''/lib/libm.so.6'', semantic_version = AnyVersion, source = ''ubuntu''\<rparr> = Inr []"
proof -
  let ?env = "reference_env failing_apt libc_index no_native"
  let ?dep = "\<lparr>package = ''/lib/libc.so.6'', semantic_version = AnyVersion, source = ''ubuntu''\<rparr>"
  let ?p = "\<lparr>name = ''/lib/libc.so.6'', version = (0::nat, 0::nat, 0::nat), pkg_source = ''ubuntu'',
         dependencies =
           {\<lparr>package = ''libc6'', semantic_version = AnyVersion, source = ''ubuntu''\<rparr>}\<rparr>"
  have h1: "source ?dep = ''ubuntu''" by simp
  have h2: "startswith (package ?dep) ''/''" by (simp add: startswith_def)
  have h3: "resolve ?env ?dep = Inr [?p]" by code_simp
  have c: "sv_coerce ''0'' = Inr (0, 0, 0)" by code_simp
  have i: "libc_index ''/lib/libc.so.6'' = Inr [''libc6'']" by (simp add: libc_index_def)
  have e: "resolve ?env
     \<lparr>package = ''/lib/libm.so.6'', semantic_version = AnyVersion, source = ''ubuntu''\<rparr> = Inr []"
    by code_simp
  from resolve_file_path [OF h1 h2 h3] h3 c i e show ?thesis by simp
qed

text \<open>
  Claim C2, as the code has it. For a dependency of source \<^verbatim>\<open>"ubuntu"\<close>: when the
  package name is not a file path, the constraint of the dependency contains the
  version of every package yielded; when it is a file path, every package
  yielded has the version \<^verbatim>\<open>Version.coerce("0")\<close>, and the constraint is not
  consulted.
\<close>

theorem resolve_named_satisfies_constraint:
  assumes "source dep = ''ubuntu''" and "resolve env dep = Inr ps"
  shows "(\<not> startswith (package dep) ''/'' \<longrightarrow>
            (\<forall>p \<in> set ps. spec_contains env (semantic_version dep) (version p))) \<and>
         (startswith (package dep) ''/'' \<longrightarrow>
            (\<forall>p \<in> set ps. Version_coerce env ''0'' = Inr (version p)))"
proof (cases "startswith (package dep) ''/''")
  case True
  from resolve_file_path_outcome [OF assms(1) True assms(2)] True show ?thesis by auto
next
  case False
  with assms show ?thesis
    by (auto simp: resolve_def split: sum.splits)
qed

theorem resolve_named_satisfies_constraint_witness:
  "resolve (reference_env (apt_show ''vim'' vim_output) no_index no_native)
     \<lparr>package = ''vim'', semantic_version = AtLeast (8, 0, 0), source = ''ubuntu''\<rparr> =
   Inr [\<lparr>name = ''vim'', version = (8, 1, 2269), pkg_source = ''ubuntu'',
         dependencies =
           {\<lparr>package = ''vim-common'', semantic_version = AnyVersion, source = ''ubuntu''\<rparr>,
            \<lparr>package = ''libc6'', semantic_version = AtLeast (2, 29, 0), source = ''ubuntu''\<rparr>}\<rparr>] \<and>
   sv_contains (AtLeast (8, 0, 0)) (8, 1, 2269) \<and>
   resolve (reference_env (apt_show ''vim'' vim_output) no_index no_native)
     \<lparr>package = ''vim'', semantic_version = Below (8, 0, 0), source = ''ubuntu''\<rparr> = Inr []"
proof -
  let ?env = "reference_env (apt_show ''vim'' vim_output) no_index no_native"
  let ?dep = "\<lparr>package = ''vim'', semantic_version = AtLeast (8, 0, 0), source = ''ubuntu''\<rparr>"
  let ?p = "\<lparr>name = ''vim'', version = (8::nat, 1::nat, 2269::nat), pkg_source = ''ubuntu'',
         dependencies =
           {\<lparr>package = ''vim-common'', semantic_version = AnyVersion, source = ''ubuntu''\<rparr>,
            \<lparr>package = ''libc6'', semantic_version = AtLeast (2, 29, 0), source = ''ubuntu''\<rparr>}\<rparr>"
  have h1: "source ?dep = ''ubuntu''" by simp
  have h2: "resolve ?env ?dep = Inr [?p]" by code_simp
  have n: "\<not> startswith (package ?dep) ''/''" by (simp add: startswith_def)
  have b: "resolve ?env
     \<lparr>package = ''vim'', semantic_version = Below (8, 0, 0), source = ''ubuntu''\<rparr> = Inr []"
    by code_simp
  from resolve_named_satisfies_constraint [OF h1 h2] n
  have "sv_contains (AtLeast (8, 0, 0)) (8, 1, 2269)"
    by (simp add: reference_env_def)
  with h2 b show ?thesis by simp
qed

text \<open>
  The claim as it is worded fails on a file path: the package yielded for
  \<^verbatim>\<open>ubuntu:/lib/libc.so.6@>=1.0.0\<close> has the version \<^verbatim>\<open>0.0.0\<close>, which the
  constraint does not contain.
\<close>

theorem file_path_ignores_constraint:
  "resolve (reference_env failing_apt libc_index no_native)
     \<lparr>package = ''/lib/libc.so.6'', semantic_version = AtLeast (1, 0, 0), source = ''ubuntu''\<rparr> =
   Inr [\<lparr>name = ''/lib/libc.so.6'', version = (0, 0, 0), pkg_source = ''ubuntu'',
         dependencies =
           {\<lparr>package = ''libc6'', semantic_version = AnyVersion, source = ''ubuntu''\<rparr>}\<rparr>] \<and>
   \<not> sv_contains (AtLeast (1, 0, 0)) (0, 0, 0)"
  by code_simp

section \<open>Stanzas, constraints and failures of the backend\<close>

lemma no_depends_no_package:
  assumes "\<forall>l \<in> set ls. \<not> startswith l ''Depends: ''"
    and "parse_lines env n ver pkgs ls = Inr ps"
  shows "ps = pkgs"
  using assms
proof (induction ls arbitrary: ver)
  case Nil
  then show ?case by simp
next
  case (Cons l ls)
  from Cons.prems(1) have l: "\<not> startswith l ''Depends: ''"
    and ls: "\<forall>l \<in> set ls. \<not> startswith l ''Depends: ''" by simp_all
  from Cons.prems(2) l obtain ver' where "parse_lines env n ver' pkgs ls = Inr ps"
    by (auto split: if_splits option.splits sum.splits)
  with Cons.IH [OF ls] show ?case by simp
qed

text \<open>
  Claim C1 at its failing input. One stanza, with a \<^verbatim>\<open>Version:\<close> line and no
  \<^verbatim>\<open>Depends:\<close> line: \<^verbatim>\<open>ubuntu_packages\<close> returns no package, and \<^verbatim>\<open>resolve\<close> with the
  constraint \<^verbatim>\<open>*\<close> yields none, where the claim has one package with an empty
  dependency set.
\<close>

theorem stanza_without_depends_is_dropped:
  "ubuntu_packages (reference_env (apt_show ''fonts-dejavu-core'' fonts_output) no_index no_native)
     ''fonts-dejavu-core'' = Inr [] \<and>
   resolve (reference_env (apt_show ''fonts-dejavu-core'' fonts_output) no_index no_native)
     \<lparr>package = ''fonts-dejavu-core'', semantic_version = AnyVersion, source = ''ubuntu''\<rparr> =
   Inr []"
  by code_simp

text \<open>
  Claim C3 at its failing input. The constraint \<^verbatim>\<open>= 2:8.1.2269-1ubuntu5\<close> of the
  \<^verbatim>\<open>Depends:\<close> line is one \<^verbatim>\<open>SimpleSpec\<close> rejects; the package is built all the same,
  and its dependency on \<^verbatim>\<open>vim-common\<close> carries the constraint \<^verbatim>\<open>*\<close>.
\<close>

theorem unparsable_constraint_becomes_wildcard:
  "sv_SimpleSpec (remove_spaces ''= 2:8.1.2269-1ubuntu5'') = Inl ExtValueError \<and>
   dep_constraint (reference_env (apt_show ''vim'' vim_output) no_index no_native)
     (Some ''= 2:8.1.2269-1ubuntu5'') = ''*'' \<and>
   ubuntu_packages (reference_env (apt_show ''vim'' vim_output) no_index no_native) ''vim'' =
   Inr [\<lparr>name = ''vim'', version = (8, 1, 2269), pkg_source = ''ubuntu'',
         dependencies =
           {\<lparr>package = ''vim-common'', semantic_version = AnyVersion, source = ''ubuntu''\<rparr>,
            \<lparr>package = ''libc6'', semantic_version = AtLeast (2, 29, 0), source = ''ubuntu''\<rparr>}\<rparr>]"
  by code_simp

lemma backend_error_propagates:
  assumes "source dep = ''ubuntu''" and "\<not> startswith (package dep) ''/''"
    and "run_command env [''apt'', ''show'', ''-a'', package dep] = Inl e"
  shows "resolve env dep = Inl (External e)"
  using assms by (simp add: resolve_def ubuntu_packages_def)

lemma file_index_error_recovered:
  assumes "source dep = ''ubuntu''" and "startswith (package dep) ''/''"
    and "file_to_packages env (package dep) = Inl e"
    and "e = ExtValueError \<or> e = ExtCalledProcessError"
  shows "resolve env dep = Inr []"
  using assms by (auto simp: resolve_def recover_def)

text \<open>
  Claim C8 at its failing input. The external command fails for the dependency
  \<^verbatim>\<open>ubuntu:vim@*\<close>: \<^verbatim>\<open>resolve\<close> ends with the exception of the command, where the
  claim has it yield nothing and raise nothing. The file-path branch does
  recover from the same failure.
\<close>

theorem backend_failure_leaves_resolve:
  "resolve (reference_env failing_apt no_index no_native)
     \<lparr>package = ''vim'', semantic_version = AnyVersion, source = ''ubuntu''\<rparr> =
   Inl (External ExtCalledProcessError)"
  by code_simp

section \<open>Properties of the ordering of resolvers\<close>




end
